theory Spec2Isabelle
  imports Complex_Main "HOL-Library.Sublist"
begin

section \<open>Telephone billing: the store\<close>

text \<open>
  The three tables of \<^verbatim>\<open>create_database\<close>. A table is the list of its rows in rowid
  order. Identifiers are SQLite INTEGERs (\<open>int\<close>); the REAL columns are modelled by
  \<open>real\<close>, so sums and products are exact (binary rounding of the floats is not
  modelled). \<open>rate_plan\<close> is a nullable TEXT column. The \<open>seq\<close> fields are the
  AUTOINCREMENT counters (the largest rowid ever handed out per table).
\<close>

record customer =
  customer_id :: int
  phone_number :: string
  cust_name :: string
  cust_address :: string
  rate_plan :: "string option"

record call_log =
  call_id :: int
  call_customer_id :: int
  callee_number :: string
  start_time :: string
  duration_seconds :: int
  cost :: real

record bill =
  bill_id :: int
  bill_customer_id :: int
  billing_period :: string
  total_calls :: nat
  total_charge :: real
  date_generated :: string

record database =
  Customers :: "customer list"
  CallLogs :: "call_log list"
  BillHistory :: "bill list"
  seq_Customers :: int
  seq_CallLogs :: int
  seq_BillHistory :: int


text \<open>AUTOINCREMENT: one more than the largest rowid the table holds or ever held.\<close>

definition next_rowid :: "int \<Rightarrow> int list \<Rightarrow> int" where
  "next_rowid seq ids = fold max ids seq + 1"

section \<open>Customer records\<close>




section \<open>Rate plans and call cost\<close>

definition RATE_PLANS :: "(string \<times> real) list" where
  "RATE_PLANS = [(''Standard'', 5 / 100), (''Premium'', 3 / 100), (''Business'', 8 / 100)]"







section \<open>Bill generation\<close>

text \<open>
  SQLite's \<^verbatim>\<open>LIKE\<close> without an ESCAPE clause: \<^verbatim>\<open>%\<close> in the pattern stands for any run
  of characters, \<^verbatim>\<open>_\<close> for any one character, and any other character matches
  itself up to the case of the ASCII letters.
\<close>

definition ascii_upper_case :: string where
  "ascii_upper_case = ''ABCDEFGHIJKLMNOPQRSTUVWXYZ''"

definition ascii_lower_case :: string where
  "ascii_lower_case = ''abcdefghijklmnopqrstuvwxyz''"

definition ascii_lower :: "char \<Rightarrow> char" where
  "ascii_lower c =
     (case map_of (zip ascii_upper_case ascii_lower_case) c of None \<Rightarrow> c | Some l \<Rightarrow> l)"

fun like :: "string \<Rightarrow> string \<Rightarrow> bool" where
  "like [] s = (s = [])"
| "like (p # ps) s =
     (if p = CHR ''%'' then
        (like ps s \<or> (case s of [] \<Rightarrow> False | c # t \<Rightarrow> like (p # ps) t))
      else
        (case s of
           [] \<Rightarrow> False
         | c # t \<Rightarrow> (p = CHR ''_'' \<or> ascii_lower p = ascii_lower c) \<and> like ps t))"

text \<open>The rows of the aggregate query:
  \<^verbatim>\<open>WHERE customer_id = ? AND start_time LIKE ?\<close> with the filter
  \<^verbatim>\<open>f"{billing_period}%"\<close>.\<close>

definition period_filter :: "string \<Rightarrow> string" where
  "period_filter period = period @ ''%''"

definition matching_calls :: "database \<Rightarrow> int \<Rightarrow> string \<Rightarrow> call_log list" where
  "matching_calls db cid period =
     filter (\<lambda>r. call_customer_id r = cid \<and> like (period_filter period) (start_time r))
            (CallLogs db)"


definition find_bill :: "database \<Rightarrow> int \<Rightarrow> string \<Rightarrow> bill option" where
  "find_bill db cid period =
     find (\<lambda>b. bill_customer_id b = cid \<and> billing_period b = period) (BillHistory db)"

text \<open>A connection: what the file holds and what the open transaction sees. Closing
  without a commit drops the transaction.\<close>

record connection =
  committed :: database
  working :: database

definition connect :: "database \<Rightarrow> connection" where
  "connect db = \<lparr>committed = db, working = db\<rparr>"

definition commit :: "connection \<Rightarrow> connection" where
  "commit conn = conn\<lparr>committed := working conn\<rparr>"

definition close :: "connection \<Rightarrow> database" where
  "close conn = committed conn"

definition update_bill :: "int \<Rightarrow> nat \<Rightarrow> real \<Rightarrow> string \<Rightarrow> database \<Rightarrow> database" where
  "update_bill bid calls charge now db =
     db\<lparr>BillHistory :=
          map (\<lambda>b. if bill_id b = bid
                   then b\<lparr>total_calls := calls, total_charge := charge, date_generated := now\<rparr>
                   else b)
              (BillHistory db)\<rparr>"

definition insert_bill :: "int \<Rightarrow> string \<Rightarrow> nat \<Rightarrow> real \<Rightarrow> string \<Rightarrow> database \<Rightarrow> database" where
  "insert_bill cid period calls charge now db =
     (let new_id = next_rowid (seq_BillHistory db) (map bill_id (BillHistory db))
      in db\<lparr>BillHistory := BillHistory db @
               [\<lparr>bill_id = new_id, bill_customer_id = cid, billing_period = period,
                 total_calls = calls, total_charge = charge, date_generated = now\<rparr>],
             seq_BillHistory := new_id\<rparr>)"

text \<open>The dialogs \<^verbatim>\<open>generate_bill\<close> can show, and where the store can raise inside
  it.\<close>

datatype bill_dialog =
    Info_no_calls_found
  | Info_bill_updated string real
  | Info_bill_generated string real
  | Error_failed_to_generate_bill

datatype bill_fault =
    Connect_fails | Sum_query_fails | Exists_query_fails | Write_fails | Commit_fails

datatype exn = UnboundLocalError

record bill_result =
  shown :: bill_dialog
  raised :: "exn option"
  store :: database

text \<open>
  The exception handler of \<^verbatim>\<open>generate_bill\<close>: the error dialog, then the
  \<^verbatim>\<open>finally\<close> block closes the connection. When \<^verbatim>\<open>sqlite3.connect\<close> itself raised,
  the local \<^verbatim>\<open>conn\<close> was never bound and the \<^verbatim>\<open>finally\<close> block raises in turn.
\<close>

definition failed :: "connection \<Rightarrow> bill_result" where
  "failed conn = \<lparr>shown = Error_failed_to_generate_bill, raised = None, store = close conn\<rparr>"

definition generate_bill ::
  "bill_fault option \<Rightarrow> string \<Rightarrow> database \<Rightarrow> int \<Rightarrow> string \<Rightarrow> bill_result" where
  "generate_bill fault now db cid period =
     (if fault = Some Connect_fails then
        \<lparr>shown = Error_failed_to_generate_bill, raised = Some UnboundLocalError, store = db\<rparr>
      else
        (let conn = connect db in
         if fault = Some Sum_query_fails then failed conn
         else
           (let rows = matching_calls (working conn) cid period;
                charge = sum_list (map cost rows);
                calls = length rows
            in if calls = 0 then
                 \<lparr>shown = Info_no_calls_found, raised = None, store = close conn\<rparr>
               else if fault = Some Exists_query_fails then failed conn
               else
                 (case find_bill (working conn) cid period of
                    Some b \<Rightarrow>
                      if fault = Some Write_fails then failed conn
                      else
                        (let conn1 = conn\<lparr>working :=
                                       update_bill (bill_id b) calls charge now (working conn)\<rparr>
                         in if fault = Some Commit_fails then failed conn1
                            else \<lparr>shown = Info_bill_updated period charge, raised = None,
                                  store = close (commit conn1)\<rparr>)
                  | None \<Rightarrow>
                      if fault = Some Write_fails then failed conn
                      else
                        (let conn1 = conn\<lparr>working :=
                                       insert_bill cid period calls charge now (working conn)\<rparr>
                         in if fault = Some Commit_fails then failed conn1
                            else \<lparr>shown = Info_bill_generated period charge, raised = None,
                                  store = close (commit conn1)\<rparr>)))))"

section \<open>The stores the program produces\<close>




section \<open>The vocabulary of the specification\<close>

text \<open>
  The result kinds the specification names, and the kind each dialog of
  \<^verbatim>\<open>generate_bill\<close> stands for. No dialog stands for \<open>CustomerNotFound\<close>.
\<close>

datatype bill_outcome = CustomerNotFound | NoActivity | StorageFailure | Billed

fun reported :: "bill_dialog \<Rightarrow> bill_outcome" where
  "reported Info_no_calls_found = NoActivity"
| "reported (Info_bill_updated period charge) = Billed"
| "reported (Info_bill_generated period charge) = Billed"
| "reported Error_failed_to_generate_bill = StorageFailure"

text \<open>The call records the specification bills: those of the customer whose start
  timestamp has the period as a prefix.\<close>

definition prefix_calls :: "database \<Rightarrow> int \<Rightarrow> string \<Rightarrow> call_log list" where
  "prefix_calls db cid period =
     filter (\<lambda>r. call_customer_id r = cid \<and> prefix period (start_time r)) (CallLogs db)"

text \<open>A period without the two wildcards of \<^verbatim>\<open>LIKE\<close> and without ASCII letters, as
  every \<^verbatim>\<open>YYYY-MM\<close> is.\<close>

definition ascii_letter :: "char \<Rightarrow> bool" where
  "ascii_letter c \<longleftrightarrow> c \<in> set (ascii_upper_case @ ascii_lower_case)"

definition plain_period :: "string \<Rightarrow> bool" where
  "plain_period period \<longleftrightarrow>
     list_all (\<lambda>ch. ch \<noteq> CHR ''%'' \<and> ch \<noteq> CHR ''_'' \<and> \<not> ascii_letter ch) period"




text \<open>The scenario of the specification: customer 1 on the plan Standard, one call of
  120 seconds in May 2024; and the operations that produce it.\<close>

definition scenario_db :: database where
  "scenario_db =
     \<lparr>Customers = [\<lparr>customer_id = 1, phone_number = ''0700000001'', cust_name = ''X'',
                     cust_address = [], rate_plan = Some ''Standard''\<rparr>],
      CallLogs = [\<lparr>call_id = 1, call_customer_id = 1, callee_number = ''0700000002'',
                   start_time = ''2024-05-01 10:00:00'', duration_seconds = 120, cost = 6\<rparr>],
      BillHistory = [], seq_Customers = 1, seq_CallLogs = 1, seq_BillHistory = 0\<rparr>"


section \<open>The selection handlers of the customer list\<close>

text \<open>
  The part of \<^verbatim>\<open>BillingApp\<close> the selection handlers read and write: the handle of the
  pending single-click timer, the selected customer id (an \<^verbatim>\<open>IntVar\<close>, holding what Tk
  stores: text), the entries, the plan variable, the three buttons, and the customer
  tree (the values of its rows in display order, a row being named by its index, and the
  rows selected). Of Tk's event loop the model keeps the callbacks scheduled with
  \<^verbatim>\<open>after\<close> that have neither fired nor been cancelled (all of them are
  \<^verbatim>\<open>execute_single_click_delete\<close>) and the counter that numbers them.
\<close>

datatype widget_state = NORMAL | DISABLED

record app =
  timer :: "nat option"
  after_pending :: "nat list"
  after_counter :: nat
  selected_customer_id :: string
  phone_entry :: string
  phone_entry_state :: widget_state
  name_entry :: string
  address_entry :: string
  rate_plan_var :: string
  update_btn :: widget_state
  delete_btn :: widget_state
  add_btn :: widget_state
  tree_rows :: "string list list"
  tree_selection :: "nat list"

text \<open>The state \<^verbatim>\<open>__init__\<close> leaves, the tree loaded with the given rows.\<close>

definition init_app :: "string list list \<Rightarrow> app" where
  "init_app rows =
     \<lparr>timer = None, after_pending = [], after_counter = 0,
      selected_customer_id = ''0'',
      phone_entry = [], phone_entry_state = NORMAL, name_entry = [], address_entry = [],
      rate_plan_var = fst (hd RATE_PLANS),
      update_btn = DISABLED, delete_btn = DISABLED, add_btn = NORMAL,
      tree_rows = rows, tree_selection = []\<rparr>"

text \<open>\<^verbatim>\<open>self.timer = self.master.after(250, self.execute_single_click_delete)\<close> and
  \<^verbatim>\<open>self.master.after_cancel(t)\<close>; cancelling a handle that is not scheduled does
  nothing. A handle is a non-empty text (\<^verbatim>\<open>after#n\<close>), so \<^verbatim>\<open>if self.timer\<close> asks
  whether one is stored.\<close>

definition after_250 :: "app \<Rightarrow> app" where
  "after_250 s =
     s\<lparr>timer := Some (after_counter s),
       after_pending := after_pending s @ [after_counter s],
       after_counter := Suc (after_counter s)\<rparr>"

definition after_cancel :: "nat \<Rightarrow> app \<Rightarrow> app" where
  "after_cancel t s = s\<lparr>after_pending := removeAll t (after_pending s)\<rparr>"

text \<open>What a handler leaves: the state, the mode it prepared if any (the intent of the
  specification: delete mode or update mode for a row), and the exception that escaped
  it if any.\<close>

datatype intent = UpdateIntent nat | DeleteIntent nat

datatype ui_error = IndexError | TclError

record outcome =
  next_state :: app
  emitted :: "intent option"
  escaped :: "ui_error option"

definition clear_customer_entries :: "app \<Rightarrow> app" where
  "clear_customer_entries s =
     (let s1 = (case timer s of
                  Some t \<Rightarrow> (after_cancel t s)\<lparr>timer := None\<rparr>
                | None \<Rightarrow> s)
      in s1\<lparr>selected_customer_id := ''0'',
            phone_entry_state := NORMAL, phone_entry := [],
            name_entry := [], address_entry := [],
            rate_plan_var := fst (hd RATE_PLANS),
            update_btn := DISABLED, delete_btn := DISABLED, add_btn := NORMAL,
            tree_selection := []\<rparr>)"

definition execute_single_click_delete :: "app \<Rightarrow> outcome" where
  "execute_single_click_delete s =
     (case tree_selection s of
        [] \<Rightarrow> \<lparr>next_state = clear_customer_entries s, emitted = None, escaped = None\<rparr>
      | item # _ \<Rightarrow>
          if \<not> item < length (tree_rows s) then
            \<lparr>next_state = s, emitted = None, escaped = Some TclError\<rparr>
          else
            (let values = tree_rows s ! item in
             if values \<noteq> [] then
               \<lparr>next_state =
                  s\<lparr>selected_customer_id := values ! 0,
                    phone_entry_state := NORMAL, phone_entry := [],
                    name_entry := [], address_entry := [],
                    rate_plan_var := fst (hd RATE_PLANS),
                    update_btn := DISABLED, delete_btn := NORMAL, add_btn := NORMAL,
                    timer := None\<rparr>,
                emitted = Some (DeleteIntent item), escaped = None\<rparr>
             else
               \<lparr>next_state = s\<lparr>timer := None\<rparr>, emitted = None, escaped = None\<rparr>))"

definition handle_treeview_select :: "app \<Rightarrow> outcome" where
  "handle_treeview_select s =
     (case tree_selection s of
        [] \<Rightarrow> \<lparr>next_state = clear_customer_entries s, emitted = None, escaped = None\<rparr>
      | _ # _ \<Rightarrow>
          (let s1 = (case timer s of Some t \<Rightarrow> after_cancel t s | None \<Rightarrow> s)
           in \<lparr>next_state = after_250 s1, emitted = None, escaped = None\<rparr>))"

text \<open>\<^verbatim>\<open>identify_row(event.y)\<close>: the row under the pointer, none below the last row.
  The event is given by the index the pointer is at.\<close>

definition identify_row :: "app \<Rightarrow> nat \<Rightarrow> nat option" where
  "identify_row s y = (if y < length (tree_rows s) then Some y else None)"

definition handle_double_click_update :: "app \<Rightarrow> nat \<Rightarrow> outcome" where
  "handle_double_click_update s y =
     (let s1 = (case timer s of
                  Some t \<Rightarrow> (after_cancel t s)\<lparr>timer := None\<rparr>
                | None \<Rightarrow> s)
      in case identify_row s1 y of
           None \<Rightarrow> \<lparr>next_state = clear_customer_entries s1, emitted = None, escaped = None\<rparr>
         | Some selected_item \<Rightarrow>
             (let values = tree_rows s1 ! selected_item in
              if values = [] then \<lparr>next_state = s1, emitted = None, escaped = None\<rparr>
              else
                (let s2 = s1\<lparr>phone_entry_state := NORMAL, phone_entry := [],
                             name_entry := [], address_entry := [],
                             selected_customer_id := values ! 0\<rparr>
                 in if length values < 2 then
                      \<lparr>next_state = s2, emitted = None, escaped = Some IndexError\<rparr>
                    else if length values < 3 then
                      \<lparr>next_state = s2\<lparr>phone_entry := values ! 1\<rparr>,
                       emitted = None, escaped = Some IndexError\<rparr>
                    else if length values < 4 then
                      \<lparr>next_state = s2\<lparr>phone_entry := values ! 1, name_entry := values ! 2\<rparr>,
                       emitted = None, escaped = Some IndexError\<rparr>
                    else if length values < 5 then
                      \<lparr>next_state = s2\<lparr>phone_entry := values ! 1, name_entry := values ! 2,
                                       address_entry := values ! 3\<rparr>,
                       emitted = None, escaped = Some IndexError\<rparr>
                    else
                      \<lparr>next_state =
                         s2\<lparr>phone_entry := values ! 1, name_entry := values ! 2,
                            address_entry := values ! 3, rate_plan_var := values ! 4,
                            phone_entry_state := DISABLED,
                            update_btn := NORMAL, delete_btn := NORMAL, add_btn := DISABLED\<rparr>,
                       emitted = Some (UpdateIntent selected_item), escaped = None\<rparr>)))"

text \<open>
  The events of the event loop. For \<^verbatim>\<open><<TreeviewSelect>>\<close> Tk has set the selection
  first, to rows of the tree; the Clear button calls \<^verbatim>\<open>clear_customer_entries\<close>; a timer
  fires only while it is scheduled, and is unscheduled when it does.
\<close>

datatype event =
    TreeviewSelect "nat list"
  | Double_1 nat
  | Clear_Selection
  | After_fires nat

fun deliver :: "event \<Rightarrow> app \<Rightarrow> outcome" where
  "deliver (TreeviewSelect sel) s =
     handle_treeview_select
       (s\<lparr>tree_selection := filter (\<lambda>item. item < length (tree_rows s)) sel\<rparr>)"
| "deliver (Double_1 y) s = handle_double_click_update s y"
| "deliver Clear_Selection s =
     \<lparr>next_state = clear_customer_entries s, emitted = None, escaped = None\<rparr>"
| "deliver (After_fires t) s =
     (if t \<in> set (after_pending s) then execute_single_click_delete (after_cancel t s)
      else \<lparr>next_state = s, emitted = None, escaped = None\<rparr>)"

fun steps :: "event list \<Rightarrow> app \<Rightarrow> app" where
  "steps [] s = s"
| "steps (e # es) s = steps es (next_state (deliver e s))"



text \<open>The invariant of the timer: the callbacks scheduled are the stored handle, if
  one is stored, and nothing else; and the selection holds rows of the tree.\<close>

definition timer_invariant :: "app \<Rightarrow> bool" where
  "timer_invariant s \<longleftrightarrow>
     after_pending s = (case timer s of None \<Rightarrow> [] | Some t \<Rightarrow> [t])"

definition selection_in_tree :: "app \<Rightarrow> bool" where
  "selection_in_tree s \<longleftrightarrow> list_all (\<lambda>item. item < length (tree_rows s)) (tree_selection s)"

section \<open>Properties of the billing engine\<close>

subsection \<open>Lists and rows\<close>









subsection \<open>Rates\<close>





subsection \<open>LIKE\<close>

lemmas ascii_lower_eval = ascii_lower_def ascii_upper_case_def ascii_lower_case_def

lemma ascii_lower_non_upper: "c \<notin> set ascii_upper_case \<Longrightarrow> ascii_lower c = c"
proof -
  assume "c \<notin> set ascii_upper_case"
  then have "map_of (zip ascii_upper_case ascii_lower_case) c = None"
    by (metis map_of_SomeD set_zip_leftD not_Some_eq)
  then show ?thesis by (simp add: ascii_lower_def)
qed

lemma ascii_lower_upper:
  "c \<in> set ascii_upper_case \<Longrightarrow> ascii_lower c \<in> set ascii_lower_case"
proof -
  assume c: "c \<in> set ascii_upper_case"
  have "length ascii_upper_case = length ascii_lower_case"
    by (simp add: ascii_upper_case_def ascii_lower_case_def)
  with c obtain l where l: "map_of (zip ascii_upper_case ascii_lower_case) c = Some l"
    by (metis map_of_zip_is_None not_Some_eq)
  then have "l \<in> set ascii_lower_case" by (metis map_of_SomeD set_zip_rightD)
  with l show ?thesis by (simp add: ascii_lower_def)
qed

lemma ascii_lower_eq_nonletter:
  "\<not> ascii_letter p \<Longrightarrow> ascii_lower p = ascii_lower c \<longleftrightarrow> p = c"
  unfolding ascii_letter_def
  by (metis UnCI ascii_lower_non_upper ascii_lower_upper set_append)

lemma like_percent: "like ''%'' s"
  by (induction s) auto

lemma like_plain_append:
  "plain_period p \<Longrightarrow> like (p @ q) s \<longleftrightarrow> (\<exists>t. s = p @ t \<and> like q t)"
proof (induction p arbitrary: s)
  case Nil
  then show ?case by simp
next
  case (Cons a p)
  then have a: "a \<noteq> CHR ''%''" "a \<noteq> CHR ''_''" "\<not> ascii_letter a" and p: "plain_period p"
    by (simp_all add: plain_period_def)
  show ?case
  proof (cases s)
    case Nil
    with a show ?thesis by simp
  next
    case (Cons c t)
    with a Cons.IH [OF p] show ?thesis
      by (auto simp: ascii_lower_eq_nonletter)
  qed
qed

lemma like_period_filter:
  "plain_period p \<Longrightarrow> like (period_filter p) s \<longleftrightarrow> prefix p s"
  by (auto simp: period_filter_def like_plain_append like_percent prefix_def
      simp del: like.simps)

lemma matching_calls_plain:
  "plain_period p \<Longrightarrow> matching_calls db c p = prefix_calls db c p"
  by (simp add: matching_calls_def prefix_calls_def like_period_filter)

lemma prefix_like: "prefix p s \<Longrightarrow> like (period_filter p) s"
proof -
  have "like (p @ q) (p @ t)" if "like q t" for q t
    using that by (induction p) auto
  then show "prefix p s \<Longrightarrow> like (period_filter p) s"
    by (auto simp: prefix_def period_filter_def like_percent simp del: like.simps)
qed

subsection \<open>The two writes\<close>










subsection \<open>The outcomes of bill generation\<close>




lemma generate_bill_fault_store:
  "store (generate_bill (Some f) now db c p) = db"
  by (cases f) (simp_all add: generate_bill_def connect_def close_def failed_def Let_def
      split: option.splits)

lemma generate_bill_fault_shown:
  "f \<in> {Connect_fails, Sum_query_fails} \<or> matching_calls db c p \<noteq> [] \<Longrightarrow>
   shown (generate_bill (Some f) now db c p) = Error_failed_to_generate_bill"
  by (cases f) (auto simp add: generate_bill_def connect_def close_def failed_def Let_def
      split: option.splits)



subsection \<open>The stores the program produces\<close>








lemma generate_bill_fault_raised:
  "raised (generate_bill (Some f) now db c p) =
     (if f = Connect_fails then Some UnboundLocalError else None)"
  by (cases f) (simp_all add: generate_bill_def connect_def close_def failed_def Let_def
      split: option.splits)

subsection \<open>Generating a bill twice\<close>



section \<open>The claims about the billing engine\<close>











lemma plain_period_2024_05: "plain_period ''2024-05''"
  by (simp add: plain_period_def ascii_letter_def ascii_upper_case_def ascii_lower_case_def)


lemma scenario_calls_2024_05: "matching_calls scenario_db 1 ''2024-05'' = CallLogs scenario_db"
  by (simp add: matching_calls_plain [OF plain_period_2024_05] prefix_calls_def scenario_db_def)




text \<open>
  C7. Whatever operation of the store fails during \<^verbatim>\<open>generate_bill\<close> (opening the
  connection, either query, the write or the commit), the store is left as it was found;
  and when the failing operation is reached (the connection and the first query always
  are, the others when a call matches), the error dialog (StorageFailure) is shown.
  When it is the connection that fails, the dialog is followed by an
  \<^verbatim>\<open>UnboundLocalError\<close> out of the \<^verbatim>\<open>finally\<close> block; no other fault raises.
\<close>

theorem generate_bill_fault_atomic:
  "store (generate_bill (Some f) now db c p) = db
   \<and> (f \<in> {Connect_fails, Sum_query_fails} \<or> matching_calls db c p \<noteq> [] \<longrightarrow>
        reported (shown (generate_bill (Some f) now db c p)) = StorageFailure)
   \<and> raised (generate_bill (Some f) now db c p) =
        (if f = Connect_fails then Some UnboundLocalError else None)"
proof -
  have "reported (shown (generate_bill (Some f) now db c p)) = StorageFailure"
    if "f \<in> {Connect_fails, Sum_query_fails} \<or> matching_calls db c p \<noteq> []"
    using generate_bill_fault_shown [OF that, of now] by simp
  then show ?thesis by (simp add: generate_bill_fault_store generate_bill_fault_raised)
qed

theorem generate_bill_fault_atomic_witness:
  "matching_calls scenario_db 1 ''2024-05'' \<noteq> [] \<and>
   store (generate_bill (Some Commit_fails) ''2024-06-01 09:00:00'' scenario_db 1 ''2024-05'')
     = scenario_db \<and>
   reported (shown
     (generate_bill (Some Commit_fails) ''2024-06-01 09:00:00'' scenario_db 1 ''2024-05''))
     = StorageFailure"
proof -
  have h: "matching_calls scenario_db 1 ''2024-05'' \<noteq> []"
    by (simp add: scenario_calls_2024_05) (simp add: scenario_db_def)
  from generate_bill_fault_atomic
    [of Commit_fails "''2024-06-01 09:00:00''" scenario_db 1 "''2024-05''"] h
  show ?thesis by simp
qed

section \<open>Properties of the selection handlers\<close>

lemmas handler_defs =
  handle_treeview_select_def handle_double_click_update_def execute_single_click_delete_def
  clear_customer_entries_def after_250_def after_cancel_def identify_row_def

lemma tree_rows_deliver: "tree_rows (next_state (deliver e s)) = tree_rows s"
  by (cases e) (auto simp: handler_defs Let_def split: option.splits list.splits)

lemma tree_rows_steps: "tree_rows (steps es s) = tree_rows s"
  by (induction es arbitrary: s) (simp_all add: tree_rows_deliver)

lemma timer_invariant_init: "timer_invariant (init_app rows)"
  by (simp add: timer_invariant_def init_app_def)

lemma selection_in_tree_init: "selection_in_tree (init_app rows)"
  by (simp add: selection_in_tree_def init_app_def)

lemma selection_in_tree_deliver:
  "selection_in_tree s \<Longrightarrow> selection_in_tree (next_state (deliver e s))"
proof (cases e)
  case (TreeviewSelect sel)
  let ?sel = "filter (\<lambda>item. item < length (tree_rows s)) sel"
  have "list_all (\<lambda>item. item < length (tree_rows s)) ?sel"
    by (simp add: list_all_iff)
  then show ?thesis
    unfolding TreeviewSelect
    by (cases ?sel)
      (simp_all add: selection_in_tree_def handler_defs Let_def split: option.splits)
next
  case (Double_1 y)
  assume "selection_in_tree s"
  then show ?thesis
    unfolding Double_1
    by (auto simp: selection_in_tree_def handler_defs Let_def split: option.splits)
next
  case Clear_Selection
  then show ?thesis
    by (simp add: selection_in_tree_def handler_defs Let_def split: option.splits)
next
  case (After_fires t)
  assume "selection_in_tree s"
  then show ?thesis
    unfolding After_fires
    by (auto simp: selection_in_tree_def handler_defs Let_def split: option.splits list.splits)
qed

lemma timer_invariant_deliver:
  assumes "timer_invariant s" and "selection_in_tree s"
  shows "timer_invariant (next_state (deliver e s))"
proof (cases e)
  case (TreeviewSelect sel)
  with assms(1) show ?thesis
    by (auto simp: timer_invariant_def handler_defs Let_def split: option.splits list.splits)
next
  case (Double_1 y)
  with assms(1) show ?thesis
    by (auto simp: timer_invariant_def handler_defs Let_def split: option.splits)
next
  case Clear_Selection
  with assms(1) show ?thesis
    by (auto simp: timer_invariant_def handler_defs Let_def split: option.splits)
next
  case (After_fires t)
  with assms show ?thesis
    by (auto simp: timer_invariant_def selection_in_tree_def handler_defs Let_def
        split: option.splits list.splits)
qed

lemma invariants_steps:
  "timer_invariant s \<Longrightarrow> selection_in_tree s \<Longrightarrow>
   timer_invariant (steps es s) \<and> selection_in_tree (steps es s)"
  by (induction es arbitrary: s)
    (simp_all add: timer_invariant_deliver selection_in_tree_deliver)

text \<open>With the selection among the rows, no handler meets a row that does not exist.\<close>

lemma no_TclError:
  "selection_in_tree s \<Longrightarrow> escaped (deliver e s) \<noteq> Some TclError"
  by (cases e)
    (auto simp: selection_in_tree_def handler_defs Let_def split: option.splits list.splits)

subsection \<open>The three gestures, from any state that keeps the invariant\<close>






lemma reachable_invariants:
  "timer_invariant (steps history (init_app rows)) \<and>
   selection_in_tree (steps history (init_app rows)) \<and>
   tree_rows (steps history (init_app rows)) = rows"
  using invariants_steps [OF timer_invariant_init selection_in_tree_init, of history rows]
  by (simp add: tree_rows_steps) (simp add: init_app_def)




lemma steps_append: "steps (es @ fs) s = steps fs (steps es s)"
  by (induction es arbitrary: s) simp_all


section \<open>The claims about the selection handlers\<close>








text \<open>
  C10. In every state reached from the initial one by any sequence of selection events
  (selection, double click, clear, a timer coming due), the callbacks scheduled are
  exactly the stored timer handle: one at most is scheduled, the handle is empty exactly
  when none is, and a handler that drops or replaces the stored handle leaves the old
  one unscheduled.
\<close>

theorem one_timer_at_most:
  "let s = steps history (init_app rows);
       s' = next_state (deliver e s)
   in timer_invariant s
    \<and> length (after_pending s) \<le> 1
    \<and> (timer s = None \<longleftrightarrow> after_pending s = [])
    \<and> timer_invariant s'
    \<and> (\<forall>t. timer s = Some t \<and> timer s' \<noteq> Some t \<longrightarrow> t \<notin> set (after_pending s'))"
proof -
  define s where "s = steps history (init_app rows)"
  define s' where "s' = next_state (deliver e s)"
  have inv: "timer_invariant s" and sel: "selection_in_tree s"
    unfolding s_def using reachable_invariants [of history rows] by simp_all
  have inv': "timer_invariant s'"
    unfolding s'_def using inv sel by (rule timer_invariant_deliver)
  have "length (after_pending s) \<le> 1" "timer s = None \<longleftrightarrow> after_pending s = []"
    using inv by (auto simp: timer_invariant_def split: option.splits)
  moreover have "t \<notin> set (after_pending s')" if "timer s = Some t \<and> timer s' \<noteq> Some t" for t
    using inv' that by (auto simp: timer_invariant_def split: option.splits)
  ultimately show ?thesis
    unfolding Let_def s_def [symmetric] s'_def [symmetric]
    using inv inv' by blast
qed

theorem one_timer_at_most_witness:
  "timer (steps [TreeviewSelect [0]] (init_app [[''1'', ''a'', ''X'', ''S'', ''Standard'']])) = Some 0
   \<and> timer (next_state (deliver (TreeviewSelect [0])
        (steps [TreeviewSelect [0]] (init_app [[''1'', ''a'', ''X'', ''S'', ''Standard'']]))))
       \<noteq> Some 0
   \<and> 0 \<notin> set (after_pending (next_state (deliver (TreeviewSelect [0])
        (steps [TreeviewSelect [0]] (init_app [[''1'', ''a'', ''X'', ''S'', ''Standard'']])))))"
proof -
  let ?s = "steps [TreeviewSelect [0]] (init_app [[''1'', ''a'', ''X'', ''S'', ''Standard'']])"
  have h1: "timer ?s = Some 0" by (simp add: init_app_def handler_defs)
  have h2: "timer (next_state (deliver (TreeviewSelect [0]) ?s)) \<noteq> Some 0"
    by (simp add: init_app_def handler_defs)
  from one_timer_at_most
    [of "[TreeviewSelect [0]]" "[[''1'', ''a'', ''X'', ''S'', ''Standard'']]" "TreeviewSelect [0]"]
  have "\<forall>t. timer ?s = Some t \<and> timer (next_state (deliver (TreeviewSelect [0]) ?s)) \<noteq> Some t
          \<longrightarrow> t \<notin> set (after_pending (next_state (deliver (TreeviewSelect [0]) ?s)))"
    unfolding Let_def by blast
  with h1 h2 show ?thesis by blast
qed

end
